theory Spec2Isabelle
  imports Complex_Main
begin

section \<open>Python numbers and text\<close>

text \<open>
  Levels, flows and valve ratios are Python floats in the source. They are modelled as
  exact reals: comparisons and the products \<open>level*10\<close>, \<open>valve*100\<close> are taken
  without the rounding of binary floating point.
\<close>

datatype py_error = IndexError | KeyError | TypeError

text \<open>\<open>int(x)\<close> on a float: truncation toward zero.\<close>

definition py_int :: "real \<Rightarrow> int" where
  "py_int x = (if 0 \<le> x then \<lfloor>x\<rfloor> else \<lceil>x\<rceil>)"

text \<open>\<open>str(n)\<close> for a non-negative integer: its decimal digits.\<close>

fun digits :: "nat \<Rightarrow> string" where
  "digits n = (if n < 10 then [''0123456789'' ! n]
               else digits (n div 10) @ [''0123456789'' ! (n mod 10)])"

declare digits.simps [simp del]

text \<open>Rounding to an integer with ties to even, as Python's float formatting does.\<close>

definition round_half_even :: "real \<Rightarrow> int" where
  "round_half_even x =
     (let f = \<lfloor>x\<rfloor>; d = x - of_int f
      in if d < 1/2 then f else if 1/2 < d then f + 1 else if even f then f else f + 1)"

text \<open>
  The format specification \<open>.0%\<close>: the value times 100, printed with no decimals and a
  sign when the value is negative, followed by a percent sign.
\<close>

definition format_percent0 :: "real \<Rightarrow> string" where
  "format_percent0 x =
     (if x < 0 then ''-'' else '''') @ digits (nat \<bar>round_half_even (x * 100)\<bar>) @ ''%''"

section \<open>Threshold alarms of a station overview\<close>

text \<open>
  \<open>ColorMixingStationOverviewWidget.check_alarm_generation\<close>. The result is the list of
  texts handed to \<open>wrt_alarm\<close> by the call, in call order.
\<close>

definition check_alarm_generation :: "string \<Rightarrow> real \<Rightarrow> real \<Rightarrow> string \<Rightarrow> string list" where
  "check_alarm_generation station_name previous_level level tank_name =
     (if tank_name = ''mixer'' then
        (if previous_level < 0.8 \<and> level \<ge> 0.8 \<or> previous_level < 0.9 \<and> level \<ge> 0.9
         then [station_name @ ''/'' @ tank_name @ '' : ''
                 @ format_percent0 (of_int (py_int (level * 10)) / 10) @ '' full'']
         else [])
      else
        (if previous_level > 0.2 \<and> level \<le> 0.2 \<or> previous_level > 0.1 \<and> level \<le> 0.1
         then [station_name @ ''/'' @ tank_name @ '' : ''
                 @ format_percent0 (of_int (py_int (level * 10)) / 10) @ '' remaining'']
         else []))"

subsection \<open>The threshold configuration as the specification words it\<close>

datatype role = Mixer | Supply

definition spec_role :: "string \<Rightarrow> role" where
  "spec_role tank_name = (if tank_name = ''mixer'' then Mixer else Supply)"

fun spec_thresholds :: "role \<Rightarrow> real list" where
  "spec_thresholds Mixer = [0.8, 0.9]"
| "spec_thresholds Supply = [0.2, 0.1]"

fun spec_crossing :: "role \<Rightarrow> real \<Rightarrow> real \<Rightarrow> real \<Rightarrow> bool" where
  "spec_crossing Mixer t previous level = (previous < t \<and> t \<le> level)"
| "spec_crossing Supply t previous level = (previous > t \<and> t \<ge> level)"



section \<open>The widgets of one tank\<close>

text \<open>\<open>TankWidget\<close>: the attributes set in \<open>__init__\<close> (the sizes are left out).\<close>

record tank_widget =
  fill_color :: string
  fill_level :: real
  valve :: real
  flow :: real

definition TankWidget_init :: "real \<Rightarrow> tank_widget" where
  "TankWidget_init level = \<lparr>fill_color = ''grey'', fill_level = level, valve = 0, flow = 0\<rparr>"

text \<open>
  \<open>PaintTankWidget\<close>: its \<open>tank\<close> and \<open>timer_slider\<close> attributes, and the state that Qt
  keeps for it: the slider's value, whether the user holds the slider down
  (\<open>isSliderDown\<close>), and the timers started with \<open>startTimer\<close> that have not been
  killed, each with its identifier, its interval and the time it is next due (times are
  in milliseconds). The level label is left out: nothing reads it back.
\<close>

record paint_tank_widget =
  tank :: tank_widget
  slider :: int
  slider_down :: bool
  timer_slider :: "nat option"
  active_timers :: "(nat \<times> nat \<times> nat) list"
  next_timer_id :: nat

text \<open>
  The state after \<open>PaintTankWidget.__init__\<close>: \<open>TankWidget(width)\<close> takes the default
  \<open>level=0\<close>, the slider is set to 0 before \<open>changedValue\<close> is connected, and no timer
  is running. Qt hands out timer identifiers from 1.
\<close>

definition PaintTankWidget_init :: paint_tank_widget where
  "PaintTankWidget_init =
     \<lparr>tank = (TankWidget_init 0)\<lparr>valve := 0\<rparr>, slider = 0, slider_down = False,
      timer_slider = None, active_timers = [], next_timer_id = 1\<rparr>"

text \<open>\<open>QObject.startTimer\<close> and \<open>QObject.killTimer\<close>.\<close>

definition startTimer :: "nat \<Rightarrow> nat \<Rightarrow> paint_tank_widget \<Rightarrow> nat \<times> paint_tank_widget" where
  "startTimer interval now w =
     (next_timer_id w,
      w\<lparr>active_timers := active_timers w @ [(next_timer_id w, interval, now + interval)],
        next_timer_id := Suc (next_timer_id w)\<rparr>)"

definition killTimer :: "nat \<Rightarrow> paint_tank_widget \<Rightarrow> paint_tank_widget" where
  "killTimer tid w = w\<lparr>active_timers := filter (\<lambda>t. fst t \<noteq> tid) (active_timers w)\<rparr>"

text \<open>\<open>PaintTankWidget.changedValue\<close>, run at time \<open>now\<close>.\<close>

definition changedValue :: "nat \<Rightarrow> paint_tank_widget \<Rightarrow> paint_tank_widget" where
  "changedValue now w =
     (let w1 = (case timer_slider w of None \<Rightarrow> w | Some tid \<Rightarrow> killTimer tid w);
          (tid, w2) = startTimer 200 now w1
      in w2\<lparr>timer_slider := Some tid\<rparr>)"

text \<open>
  \<open>PaintTankWidget.timerEvent\<close>. \<open>killTimer(None)\<close> raises a TypeError. The second
  component is the value that the \<open>TangoWriteAttributeWorker\<close> started here writes to
  the valve attribute.
\<close>

definition timerEvent :: "paint_tank_widget \<Rightarrow> py_error + paint_tank_widget \<times> real" where
  "timerEvent w =
     (case timer_slider w of
        None \<Rightarrow> Inl TypeError
      | Some tid \<Rightarrow>
          (let w1 = (killTimer tid w)\<lparr>timer_slider := None\<rparr>
           in Inr (w1, of_int (slider w1) / 100)))"

text \<open>
  \<open>QSlider.setValue\<close> on a slider of range 0 to 100 whose \<open>valueChanged\<close> signal is
  connected to \<open>changedValue\<close>: the value is bounded to the range, and the signal is
  emitted only when the value changes.
\<close>

definition slider_setValue :: "nat \<Rightarrow> int \<Rightarrow> paint_tank_widget \<Rightarrow> paint_tank_widget" where
  "slider_setValue now v w =
     (let b = max 0 (min 100 v)
      in if b = slider w then w else changedValue now (w\<lparr>slider := b\<rparr>))"

text \<open>\<open>PaintTankWidget.setValve\<close>, \<open>setFlow\<close> and \<open>setColor\<close>.\<close>

definition setValve :: "nat \<Rightarrow> real \<Rightarrow> paint_tank_widget \<Rightarrow> paint_tank_widget" where
  "setValve now v w =
     (if timer_slider w = None \<and> \<not> slider_down w then
        (let w1 = slider_setValue now (py_int (v * 100)) w
         in w1\<lparr>tank := (tank w1)\<lparr>valve := v * 100\<rparr>\<rparr>)
      else w)"

definition setFlow :: "real \<Rightarrow> paint_tank_widget \<Rightarrow> paint_tank_widget" where
  "setFlow f w = w\<lparr>tank := (tank w)\<lparr>flow := f\<rparr>\<rparr>"

definition setColor :: "string \<Rightarrow> paint_tank_widget \<Rightarrow> paint_tank_widget" where
  "setColor c w = w\<lparr>tank := (tank w)\<lparr>fill_color := c\<rparr>\<rparr>"

subsection \<open>The event loop of one tank widget\<close>

text \<open>
  The timers that are due are delivered to \<open>timerEvent\<close> in turn; a timer killed by an
  earlier handler is skipped. Qt timers repeat, so the next due time is moved on by the
  interval before the handler runs. The result collects the values written.
\<close>

definition reschedule :: "nat \<Rightarrow> paint_tank_widget \<Rightarrow> paint_tank_widget" where
  "reschedule tid w =
     w\<lparr>active_timers :=
         map (\<lambda>(i, iv, due). if i = tid then (i, iv, due + iv) else (i, iv, due)) (active_timers w)\<rparr>"

fun fire_timers :: "(nat \<times> nat \<times> nat) list \<Rightarrow> paint_tank_widget
                      \<Rightarrow> py_error + paint_tank_widget \<times> real list" where
  "fire_timers [] w = Inr (w, [])"
| "fire_timers (t # ts) w =
     (if t \<in> set (active_timers w) then
        (case timerEvent (reschedule (fst t) w) of
           Inl e \<Rightarrow> Inl e
         | Inr (w1, v) \<Rightarrow>
             (case fire_timers ts w1 of
                Inl e \<Rightarrow> Inl e
              | Inr (w2, vs) \<Rightarrow> Inr (w2, v # vs)))
      else fire_timers ts w)"

definition process_timers :: "nat \<Rightarrow> paint_tank_widget \<Rightarrow> py_error + paint_tank_widget \<times> real list" where
  "process_timers now w = fire_timers (filter (\<lambda>(i, iv, due). due \<le> now) (active_timers w)) w"

text \<open>
  What reaches the widget from outside: the user has moved the slider to a new value
  (Qt stores it and emits \<open>valueChanged\<close>), the user presses or releases the slider, and a
  valve value arrives on a \<open>done\<close> signal (from a poll or from the read-back of a write).
\<close>

datatype gui_input = ValueChanged int | SliderDown bool | ValveValue real

fun handle_input :: "nat \<Rightarrow> gui_input \<Rightarrow> paint_tank_widget \<Rightarrow> paint_tank_widget" where
  "handle_input now (ValueChanged v) w = changedValue now (w\<lparr>slider := v\<rparr>)"
| "handle_input now (SliderDown b) w = w\<lparr>slider_down := b\<rparr>"
| "handle_input now (ValveValue v) w = setValve now v w"

fun run_events :: "(nat \<times> gui_input) list \<Rightarrow> paint_tank_widget
                     \<Rightarrow> py_error + paint_tank_widget \<times> real list" where
  "run_events [] w = Inr (w, [])"
| "run_events ((t, inp) # es) w =
     (case process_timers t w of
        Inl e \<Rightarrow> Inl e
      | Inr (w1, vs1) \<Rightarrow>
          (case run_events es (handle_input t inp w1) of
             Inl e \<Rightarrow> Inl e
           | Inr (w2, vs2) \<Rightarrow> Inr (w2, vs1 @ vs2)))"

text \<open>The events, and then the timers that are due at time \<open>T\<close>.\<close>

definition run_until :: "nat \<Rightarrow> (nat \<times> gui_input) list \<Rightarrow> paint_tank_widget
                           \<Rightarrow> py_error + paint_tank_widget \<times> real list" where
  "run_until T es w =
     (case run_events es w of
        Inl e \<Rightarrow> Inl e
      | Inr (w1, vs1) \<Rightarrow>
          (case process_timers T w1 of
             Inl e \<Rightarrow> Inl e
           | Inr (w2, vs2) \<Rightarrow> Inr (w2, vs1 @ vs2)))"



text \<open>
  A burst seen with everything else that reaches the widget in between: every event
  comes before the time \<open>d\<close> at which the running timer is due, and a request moves
  that time to 200 ms after itself. \<open>settle_time\<close> is the due time after the last
  event, \<open>last_request\<close> the value of the last request.
\<close>

fun within_settle :: "nat \<Rightarrow> (nat \<times> gui_input) list \<Rightarrow> bool" where
  "within_settle d [] = True"
| "within_settle d ((t, inp) # es) =
     (t < d \<and> within_settle (case inp of ValueChanged v \<Rightarrow> t + 200 | _ \<Rightarrow> d) es)"

fun settle_time :: "nat \<Rightarrow> (nat \<times> gui_input) list \<Rightarrow> nat" where
  "settle_time d [] = d"
| "settle_time d ((t, inp) # es) =
     settle_time (case inp of ValueChanged v \<Rightarrow> t + 200 | _ \<Rightarrow> d) es"

fun last_request :: "int \<Rightarrow> (nat \<times> gui_input) list \<Rightarrow> int" where
  "last_request v [] = v"
| "last_request v ((t, inp) # es) =
     last_request (case inp of ValueChanged v' \<Rightarrow> v' | _ \<Rightarrow> v) es"

text \<open>
  Two states of the widget's timers: none running and none remembered, or exactly one
  running, remembered in \<open>timer_slider\<close> and due at time \<open>d\<close>.
\<close>

definition idle :: "paint_tank_widget \<Rightarrow> bool" where
  "idle w = (timer_slider w = None \<and> active_timers w = [])"

definition pending_until :: "paint_tank_widget \<Rightarrow> nat \<Rightarrow> bool" where
  "pending_until w d =
     (case timer_slider w of None \<Rightarrow> False | Some tid \<Rightarrow> active_timers w = [(tid, 200, d)])"

section \<open>The station overview\<close>

text \<open>
  \<open>ColorMixingStationOverviewWidget\<close> with the \<open>tanks\<close> dictionary of its
  \<open>ColorMixingStationWidget\<close>. The overview's level labels and their colours are left
  out: they are written and never read.
\<close>

record station_overview =
  station_name :: string
  tanks :: "string \<rightharpoonup> paint_tank_widget"

definition ColorMixingStationOverviewWidget_init :: "string \<Rightarrow> station_overview" where
  "ColorMixingStationOverviewWidget_init name =
     \<lparr>station_name = name,
      tanks = map_of [(''cyan'', PaintTankWidget_init), (''magenta'', PaintTankWidget_init),
                      (''yellow'', PaintTankWidget_init), (''black'', PaintTankWidget_init),
                      (''white'', PaintTankWidget_init), (''mixer'', PaintTankWidget_init)]\<rparr>"

text \<open>
  \<open>ColorMixingStationOverviewWidget.setLevel\<close>: the new state and the alarm texts handed
  to \<open>wrt_alarm\<close>. A tank name that is not in the dictionary raises a KeyError.
\<close>

definition setLevel :: "real \<Rightarrow> string \<Rightarrow> station_overview \<Rightarrow> py_error + station_overview \<times> string list" where
  "setLevel level tank_name ov =
     (case tanks ov tank_name of
        None \<Rightarrow> Inl KeyError
      | Some w \<Rightarrow>
          Inr (ov\<lparr>tanks := (tanks ov)(tank_name \<mapsto> w\<lparr>tank := (tank w)\<lparr>fill_level := level\<rparr>\<rparr>)\<rparr>,
               check_alarm_generation (station_name ov) (fill_level (tank w)) level tank_name))"

section \<open>The alarm log\<close>

text \<open>
  \<open>Gui.write_new_alarm\<close> on the texts of \<open>alarm_labels\<close>; the time stamp is the formatted
  local time. With no label at all, \<open>alarm_labels[0]\<close> raises an IndexError.
\<close>

definition write_new_alarm :: "string \<Rightarrow> string \<Rightarrow> string list \<Rightarrow> py_error + string list" where
  "write_new_alarm timestamp alarm_text alarm_labels =
     (let shifted = fold (\<lambda>i ls. ls[i := ls ! (i - 1)]) (rev [1..<length alarm_labels]) alarm_labels
      in if shifted = [] then Inl IndexError
         else Inr (shifted[0 := timestamp @ '' : '' @ alarm_text]))"

text \<open>The labels created in \<open>Gui.__init__\<close>.\<close>

definition alarm_labels_init :: "string list" where
  "alarm_labels_init = replicate 10 []"

text \<open>A sequence of calls, each with its time stamp and text, oldest call first.\<close>

fun write_alarms :: "(string \<times> string) list \<Rightarrow> string list \<Rightarrow> py_error + string list" where
  "write_alarms [] labels = Inr labels"
| "write_alarms ((ts, a) # as) labels =
     (case write_new_alarm ts a labels of
        Inl e \<Rightarrow> Inl e
      | Inr labels' \<Rightarrow> write_alarms as labels')"

definition alarm_record :: "string \<times> string \<Rightarrow> string" where
  "alarm_record r = fst r @ '' : '' @ snd r"

section \<open>The polling worker\<close>

datatype attr = LEVEL | VALVE | FLOW | COLOR

text \<open>
  What each \<open>AttributeProxy.read\<close> of one round returns if it is called: the value, or
  the text of the exception it raises.
\<close>

record round_reads =
  read_color :: "string + string"
  read_level :: "string + real"
  read_flow :: "string + real"
  read_valve :: "string + real"

datatype worker_event =
    Read attr
  | EmitColor string | EmitLevel real | EmitFlow real | EmitValve real
  | Print string
  | Sleep real

text \<open>One pass through the body of the \<open>try\<close> in \<open>TangoBackgroundWorker.run\<close>.\<close>

definition poll_round :: "round_reads \<Rightarrow> worker_event list" where
  "poll_round r =
     (case read_color r of
        Inl e \<Rightarrow> [Read COLOR, Print (''Error reading from the device: '' @ e)]
      | Inr data_color \<Rightarrow>
     (case read_level r of
        Inl e \<Rightarrow> [Read COLOR, Read LEVEL, Print (''Error reading from the device: '' @ e)]
      | Inr data_level \<Rightarrow>
     (case read_flow r of
        Inl e \<Rightarrow> [Read COLOR, Read LEVEL, Read FLOW, Print (''Error reading from the device: '' @ e)]
      | Inr data_flow \<Rightarrow>
     (case read_valve r of
        Inl e \<Rightarrow> [Read COLOR, Read LEVEL, Read FLOW, Read VALVE,
                  Print (''Error reading from the device: '' @ e)]
      | Inr data_valve \<Rightarrow>
          [Read COLOR, Read LEVEL, Read FLOW, Read VALVE,
           EmitColor data_color, EmitLevel data_level, EmitFlow data_flow, EmitValve data_valve]))))"

text \<open>
  The \<open>while True\<close> loop, unrolled over the rounds whose reads are given: the loop has
  no exit, and a list of \<open>n\<close> rounds gives the events of its first \<open>n\<close> passes.
\<close>

fun worker_loop :: "real \<Rightarrow> round_reads list \<Rightarrow> worker_event list" where
  "worker_loop interval [] = []"
| "worker_loop interval (r # rs) = poll_round r @ [Sleep interval] @ worker_loop interval rs"

text \<open>\<open>TangoBackgroundWorker.run\<close>; the flag says whether the four proxies could be created.\<close>

definition worker_run :: "string \<Rightarrow> string \<Rightarrow> real \<Rightarrow> bool \<Rightarrow> round_reads list \<Rightarrow> worker_event list" where
  "worker_run station tank_name interval proxies_ok rounds =
     Print (''Starting TangoBackgroundWorker for '' @ [CHR 0x27] @ station @ [CHR 0x27] @ ''/''
              @ [CHR 0x27] @ tank_name @ [CHR 0x27] @ '' tank'')
     # (if proxies_ok then worker_loop interval rounds
        else [Print (''Error creating AttributeProxy for '' @ tank_name)])"

fun is_emit :: "worker_event \<Rightarrow> bool" where
  "is_emit (EmitColor c) = True"
| "is_emit (EmitLevel l) = True"
| "is_emit (EmitFlow f) = True"
| "is_emit (EmitValve v) = True"
| "is_emit e = False"

fun is_read :: "worker_event \<Rightarrow> bool" where
  "is_read (Read a) = True"
| "is_read e = False"

definition round_failed :: "round_reads \<Rightarrow> bool" where
  "round_failed r = (isl (read_color r) \<or> isl (read_level r) \<or> isl (read_flow r) \<or> isl (read_valve r))"

section \<open>Signals delivered to the main window\<close>

text \<open>One station of \<open>Gui\<close> and the alarm labels.\<close>

record gui =
  overview :: station_overview
  alarm_labels :: "string list"

text \<open>
  The slots connected in \<open>PaintTankWidget.__init__\<close> to the worker of tank \<open>tank_name\<close>:
  level to the overview's \<open>setLevel\<close>, flow, colour and valve to the tank widget's own
  methods. The result carries the alarm texts of the call.
\<close>

fun deliver :: "string \<Rightarrow> nat \<Rightarrow> worker_event \<Rightarrow> station_overview
                  \<Rightarrow> py_error + station_overview \<times> string list" where
  "deliver tank_name now (EmitLevel l) ov = setLevel l tank_name ov"
| "deliver tank_name now (EmitFlow f) ov =
     (case tanks ov tank_name of None \<Rightarrow> Inl KeyError
      | Some w \<Rightarrow> Inr (ov\<lparr>tanks := (tanks ov)(tank_name \<mapsto> setFlow f w)\<rparr>, []))"
| "deliver tank_name now (EmitColor c) ov =
     (case tanks ov tank_name of None \<Rightarrow> Inl KeyError
      | Some w \<Rightarrow> Inr (ov\<lparr>tanks := (tanks ov)(tank_name \<mapsto> setColor c w)\<rparr>, []))"
| "deliver tank_name now (EmitValve v) ov =
     (case tanks ov tank_name of None \<Rightarrow> Inl KeyError
      | Some w \<Rightarrow> Inr (ov\<lparr>tanks := (tanks ov)(tank_name \<mapsto> setValve now v w)\<rparr>, []))"
| "deliver tank_name now e ov = Inr (ov, [])"

fun publish :: "string \<Rightarrow> nat \<Rightarrow> string \<Rightarrow> worker_event list \<Rightarrow> gui \<Rightarrow> py_error + gui" where
  "publish tank_name now ts [] g = Inr g"
| "publish tank_name now ts (e # es) g =
     (case deliver tank_name now e (overview g) of
        Inl err \<Rightarrow> Inl err
      | Inr (ov, alarms) \<Rightarrow>
          (case write_alarms (map (\<lambda>a. (ts, a)) alarms) (alarm_labels g) of
             Inl err \<Rightarrow> Inl err
           | Inr ls \<Rightarrow> publish tank_name now ts es (g\<lparr>overview := ov, alarm_labels := ls\<rparr>)))"

section \<open>Properties of the threshold alarms\<close>





text \<open>
  C2, as stated, fails: a mixer level that moves from 0.75 to 0.95 crosses both 0.8 and
  0.9, and the call produces one alarm text, not two.
\<close>

theorem double_crossing_single_alarm:
  "spec_crossing Mixer (4/5) (3/4) (19/20) \<and> spec_crossing Mixer (9/10) (3/4) (19/20)
   \<and> check_alarm_generation ''station1'' (3/4) (19/20) ''mixer'' = [''station1/mixer : 90% full'']"
  by (simp add: check_alarm_generation_def format_percent0_def py_int_def round_half_even_def
      digits.simps)

text \<open>
  C2, amended. Every evaluated sample produces one alarm text when it crosses at least
  one threshold of the role, however many it crosses, and none otherwise.
\<close>

theorem one_alarm_per_sample:
  "length (check_alarm_generation station previous level tank_name) =
     (if \<exists>t \<in> set (spec_thresholds (spec_role tank_name)).
           spec_crossing (spec_role tank_name) t previous level
      then 1 else 0)"
  by (simp add: check_alarm_generation_def spec_role_def)

theorem one_alarm_per_sample_witness:
  "length (check_alarm_generation ''station1'' (1/4) (1/20) ''cyan'') = 1
   \<and> spec_crossing (spec_role ''cyan'') (1/5) (1/4) (1/20)
   \<and> spec_crossing (spec_role ''cyan'') (1/10) (1/4) (1/20)"
  using one_alarm_per_sample [of "''station1''" "1/4" "1/20" "''cyan''"]
  by (simp add: spec_role_def)



section \<open>The first sample of a tank\<close>

text \<open>
  C3, as stated, fails: the last observed level of a tank is not undefined before the
  first sample but 0, the default of \<open>TankWidget\<close>, so a mixer whose first sample is
  0.85 raises an alarm on that sample.
\<close>

theorem first_mixer_sample_fires:
  "map_sum id snd (setLevel (17/20) ''mixer'' (ColorMixingStationOverviewWidget_init ''station1''))
     = Inr [''station1/mixer : 80% full'']"
  by (simp add: setLevel_def ColorMixingStationOverviewWidget_init_def PaintTankWidget_init_def
      TankWidget_init_def check_alarm_generation_def format_percent0_def py_int_def
      round_half_even_def digits.simps)

lemma init_tank_level:
  assumes "tank_name \<in> {''cyan'', ''magenta'', ''yellow'', ''black'', ''white'', ''mixer''}"
  shows "tanks (ColorMixingStationOverviewWidget_init station) tank_name = Some PaintTankWidget_init"
  using assms by (auto simp: ColorMixingStationOverviewWidget_init_def)

text \<open>
  C3, amended. The last observed level of each of the six tanks of a station starts at
  0, and the first sample is evaluated against it like any other: the first sample of a
  supply tank never raises an alarm, and the first sample of the mixer raises one
  exactly when it is at or above 0.8.
\<close>

theorem first_sample_alarm:
  assumes "tank_name \<in> {''cyan'', ''magenta'', ''yellow'', ''black'', ''white'', ''mixer''}"
  shows "map_sum id snd (setLevel level tank_name (ColorMixingStationOverviewWidget_init station))
           = Inr (check_alarm_generation station 0 level tank_name)
         \<and> (check_alarm_generation station 0 level tank_name \<noteq> [])
             = (tank_name = ''mixer'' \<and> 0.8 \<le> level)"
proof -
  have "fill_level (tank PaintTankWidget_init) = 0"
    by (simp add: PaintTankWidget_init_def TankWidget_init_def)
  moreover have "station_name (ColorMixingStationOverviewWidget_init station) = station"
    by (simp add: ColorMixingStationOverviewWidget_init_def)
  ultimately have "map_sum id snd (setLevel level tank_name (ColorMixingStationOverviewWidget_init station))
           = Inr (check_alarm_generation station 0 level tank_name)"
    by (simp add: setLevel_def init_tank_level [OF assms])
  moreover have "(check_alarm_generation station 0 level tank_name \<noteq> [])
             = (tank_name = ''mixer'' \<and> 0.8 \<le> level)"
    by (auto simp: check_alarm_generation_def)
  ultimately show ?thesis by simp
qed

theorem first_sample_alarm_witness:
  "''cyan'' \<in> {''cyan'', ''magenta'', ''yellow'', ''black'', ''white'', ''mixer''}
   \<and> map_sum id snd (setLevel (1/10) ''cyan'' (ColorMixingStationOverviewWidget_init ''station1''))
       = Inr []"
proof -
  have h: "''cyan'' \<in> {''cyan'', ''magenta'', ''yellow'', ''black'', ''white'', ''mixer''}" by simp
  show ?thesis using h first_sample_alarm [OF h, of "1/10" "''station1''"] by simp
qed

section \<open>Properties of the alarm log\<close>

lemma shift_nth:
  assumes "1 \<le> j" "j \<le> length ls"
  shows "foldr (\<lambda>i ls. ls[i := ls ! (i - 1)]) [j..<length ls] ls = take j ls @ drop (j - 1) (butlast ls)"
  using assms
proof (induction "length ls - j" arbitrary: j)
  case 0
  then show ?case by simp
next
  case (Suc d)
  then have j: "j < length ls" "1 \<le> Suc j" "Suc j \<le> length ls" "d = length ls - Suc j" by auto
  let ?f = "\<lambda>i ls. ls[i := ls ! (i - 1)]"
  have ih: "foldr ?f [Suc j..<length ls] ls = take (Suc j) ls @ drop j (butlast ls)"
    using Suc.hyps(1) [OF j(4) j(2) j(3)] by simp
  have up: "[j..<length ls] = j # [Suc j..<length ls]" using j(1) by (simp add: upt_rec)
  have t: "take (Suc j) ls = take j ls @ [ls ! j]" using j(1) by (simp add: take_Suc_conv_app_nth)
  have lt: "length (take j ls) = j" using j(1) by simp
  have nth1: "(take j ls @ [ls ! j] @ drop j (butlast ls)) ! (j - 1) = ls ! (j - 1)"
    using Suc.prems(1) j(1) by (simp add: nth_append)
  have "foldr ?f [j..<length ls] ls = ?f j (take j ls @ [ls ! j] @ drop j (butlast ls))"
    unfolding up using ih t by simp
  also have "\<dots> = take j ls @ [ls ! (j - 1)] @ drop j (butlast ls)"
    unfolding nth1 using lt by (simp add: list_update_append)
  also have "[ls ! (j - 1)] @ drop j (butlast ls) = drop (j - 1) (butlast ls)"
  proof -
    have "j - 1 < length (butlast ls)" using Suc.prems(1) j(1) by simp
    then have "drop (j - 1) (butlast ls) = butlast ls ! (j - 1) # drop (Suc (j - 1)) (butlast ls)"
      by (rule Cons_nth_drop_Suc [symmetric])
    moreover have "butlast ls ! (j - 1) = ls ! (j - 1)"
      using Suc.prems(1) j(1) by (simp add: nth_butlast)
    ultimately show ?thesis using Suc.prems(1) by simp
  qed
  finally show ?case .
qed

lemma write_new_alarm_shift:
  assumes "labels \<noteq> []"
  shows "write_new_alarm ts a labels = Inr (alarm_record (ts, a) # butlast labels)"
proof -
  let ?f = "\<lambda>i ls. ls[i := ls ! (i - 1)]"
  have "1 \<le> length labels" using assms by (cases labels) auto
  then have "foldr ?f [1..<length labels] labels = take 1 labels @ drop 0 (butlast labels)"
    using shift_nth [of 1 labels] by simp
  then have s: "fold ?f (rev [1..<length labels]) labels = hd labels # butlast labels"
    using assms by (cases labels) (simp_all add: fold_rev foldr_conv_fold)
  show ?thesis unfolding write_new_alarm_def s Let_def by (simp add: alarm_record_def)
qed

lemma take_prefix: "n \<le> length xs \<Longrightarrow> take n (xs @ ys) = take n xs"
  by simp

lemma write_alarms_take:
  assumes "labels \<noteq> []"
  shows "write_alarms rs labels = Inr (take (length labels) (rev (map alarm_record rs) @ labels))"
  using assms
proof (induction rs arbitrary: labels)
  case Nil
  then show ?case by simp
next
  case (Cons r rs)
  obtain ts a where r: "r = (ts, a)" by (cases r)
  let ?l = "alarm_record (ts, a) # butlast labels"
  have len: "length ?l = length labels" using Cons.prems by (cases labels) auto
  have "write_alarms (r # rs) labels = write_alarms rs ?l"
    by (simp add: r write_new_alarm_shift [OF Cons.prems])
  also have "\<dots> = Inr (take (length labels) (rev (map alarm_record rs) @ ?l))"
    using Cons.IH [of ?l] len by simp
  also have "take (length labels) (rev (map alarm_record rs) @ ?l)
           = take (length labels) (rev (map alarm_record (r # rs)) @ labels)"
  proof -
    have "rev (map alarm_record (r # rs)) @ labels
            = (rev (map alarm_record rs) @ ?l) @ [last labels]"
      using Cons.prems by (simp add: r)
    moreover have "length labels \<le> length (rev (map alarm_record rs) @ ?l)"
      using len by simp
    ultimately show ?thesis by (simp only: take_prefix)
  qed
  finally show ?case .
qed

text \<open>
  C4. Starting from the ten empty labels of the main window, after any sequence of
  alarms the log has ten entries, the most recent records first and at most ten of
  them; one more alarm puts its record at index 0, moves the others down by one and
  drops the last; after twelve alarms exactly the ten most recent records remain, the
  newest at index 0.
\<close>

theorem alarm_log_keeps_ten_newest:
  "write_alarms rs alarm_labels_init
     = Inr (take 10 (rev (map alarm_record rs)) @ replicate (10 - length rs) [])
   \<and> length (take 10 (rev (map alarm_record rs)) @ replicate (10 - length rs) []) = 10
   \<and> write_alarms (rs @ [r]) alarm_labels_init
       = Inr (alarm_record r
              # butlast (take 10 (rev (map alarm_record rs)) @ replicate (10 - length rs) []))
   \<and> (length rs = 12 \<longrightarrow>
        write_alarms rs alarm_labels_init = Inr (rev (drop 2 (map alarm_record rs))))"
proof -
  have ne: "alarm_labels_init \<noteq> []" by (simp add: alarm_labels_init_def)
  have a: "write_alarms rs alarm_labels_init
     = Inr (take 10 (rev (map alarm_record rs)) @ replicate (10 - length rs) [])" for rs
    unfolding write_alarms_take [OF ne] by (simp add: alarm_labels_init_def min_def)
  have b: "length (take 10 (rev (map alarm_record rs)) @ replicate (10 - length rs) ([]::string)) = 10"
    by auto
  have c: "write_alarms (rs @ [r]) alarm_labels_init
       = Inr (alarm_record r
              # butlast (take 10 (rev (map alarm_record rs)) @ replicate (10 - length rs) []))"
  proof -
    let ?old = "take 10 (rev (map alarm_record rs)) @ replicate (10 - length rs) ([]::string)"
    have "take 10 (alarm_record r # rev (map alarm_record rs)) @ replicate (10 - Suc (length rs)) ([]::string)
            = alarm_record r # butlast ?old"
    proof (cases "length rs < 10")
      case True
      then have "10 - length rs = Suc (10 - Suc (length rs))" by simp
      then have "replicate (10 - length rs) ([]::string) = replicate (10 - Suc (length rs)) [] @ [[]]"
        by (simp add: replicate_append_same)
      then show ?thesis using True by (simp add: butlast_append take_Cons')
    next
      case False
      then have "take 10 (alarm_record r # rev (map alarm_record rs))
                   = alarm_record r # take 9 (rev (map alarm_record rs))"
        by (simp add: take_Cons')
      moreover have "butlast (take 10 (rev (map alarm_record rs))) = take 9 (rev (map alarm_record rs))"
        using False by (simp add: butlast_take)
      ultimately show ?thesis using False by simp
    qed
    then show ?thesis using a [of "rs @ [r]"] by simp
  qed
  have d: "length rs = 12 \<longrightarrow>
        write_alarms rs alarm_labels_init = Inr (rev (drop 2 (map alarm_record rs)))"
    by (simp add: a rev_drop)
  from a b c d show ?thesis by blast
qed

theorem alarm_log_keeps_ten_newest_witness:
  "length [(''01'', ''a''), (''02'', ''b''), (''03'', ''c''), (''04'', ''d''), (''05'', ''e''),
           (''06'', ''f''), (''07'', ''g''), (''08'', ''h''), (''09'', ''i''), (''10'', ''j''),
           (''11'', ''k''), (''12'', ''l'')] = 12
   \<and> write_alarms [(''01'', ''a''), (''02'', ''b''), (''03'', ''c''), (''04'', ''d''), (''05'', ''e''),
           (''06'', ''f''), (''07'', ''g''), (''08'', ''h''), (''09'', ''i''), (''10'', ''j''),
           (''11'', ''k''), (''12'', ''l'')] alarm_labels_init
       = Inr [''12 : l'', ''11 : k'', ''10 : j'', ''09 : i'', ''08 : h'', ''07 : g'', ''06 : f'',
              ''05 : e'', ''04 : d'', ''03 : c'']"
  using alarm_log_keeps_ten_newest
    [of "[(''01'', ''a''), (''02'', ''b''), (''03'', ''c''), (''04'', ''d''), (''05'', ''e''),
           (''06'', ''f''), (''07'', ''g''), (''08'', ''h''), (''09'', ''i''), (''10'', ''j''),
           (''11'', ''k''), (''12'', ''l'')]" "(''13'', ''m'')"]
  by (simp add: alarm_record_def)

section \<open>Properties of the polling worker\<close>

lemma poll_round_failed_emits:
  assumes "round_failed r"
  shows "filter is_emit (poll_round r) = []"
  using assms by (auto simp: round_failed_def poll_round_def split: sum.splits)

lemma poll_round_ok:
  assumes "\<not> round_failed r"
  shows "poll_round r = [Read COLOR, Read LEVEL, Read FLOW, Read VALVE,
           EmitColor (projr (read_color r)), EmitLevel (projr (read_level r)),
           EmitFlow (projr (read_flow r)), EmitValve (projr (read_valve r))]"
  using assms by (auto simp: round_failed_def poll_round_def split: sum.splits)

lemma publish_no_emit:
  assumes "filter is_emit es = []"
  shows "publish tank_name now ts es g = Inr g"
  using assms
proof (induction es)
  case Nil
  then show ?case by simp
next
  case (Cons e es)
  then have "\<not> is_emit e" "filter is_emit es = []" by (auto split: if_splits)
  then show ?case using Cons.IH by (cases e) simp_all
qed

text \<open>
  C5. In a round in which one of the four reads fails, no signal is emitted, so
  delivering the round's events leaves the main window as it was; the loop goes on
  with the wait of the fixed interval and then the next round; and a round in which all
  four reads succeed emits all four values.
\<close>

theorem failed_round_publishes_nothing:
  assumes "round_failed r"
  shows "filter is_emit (poll_round r) = []
         \<and> publish tank_name now ts (poll_round r) g = Inr g
         \<and> worker_loop interval (r # r' # rs)
             = poll_round r @ Sleep interval # poll_round r' @ Sleep interval # worker_loop interval rs
         \<and> (\<not> round_failed r' \<longrightarrow>
              filter is_emit (poll_round r')
                = [EmitColor (projr (read_color r')), EmitLevel (projr (read_level r')),
                   EmitFlow (projr (read_flow r')), EmitValve (projr (read_valve r'))])"
  using poll_round_failed_emits [OF assms] publish_no_emit [OF poll_round_failed_emits [OF assms]]
  by (simp add: poll_round_ok)

theorem failed_round_publishes_nothing_witness:
  "round_failed \<lparr>read_color = Inr ''#00ffff'', read_level = Inr (1/2), read_flow = Inl ''timeout'',
                  read_valve = Inr (1/4)\<rparr>
   \<and> worker_loop (1/2)
        [\<lparr>read_color = Inr ''#00ffff'', read_level = Inr (1/2), read_flow = Inl ''timeout'',
          read_valve = Inr (1/4)\<rparr>,
         \<lparr>read_color = Inr ''#00ffff'', read_level = Inr (2/5), read_flow = Inr 3,
          read_valve = Inr (1/4)\<rparr>]
       = [Read COLOR, Read LEVEL, Read FLOW, Print ''Error reading from the device: timeout'',
          Sleep (1/2),
          Read COLOR, Read LEVEL, Read FLOW, Read VALVE,
          EmitColor ''#00ffff'', EmitLevel (2/5), EmitFlow 3, EmitValve (1/4),
          Sleep (1/2)]"
proof -
  have h: "round_failed \<lparr>read_color = Inr ''#00ffff'', read_level = Inr (1/2),
                          read_flow = Inl ''timeout'', read_valve = Inr (1/4)\<rparr>"
    by (simp add: round_failed_def)
  show ?thesis
    using h failed_round_publishes_nothing [OF h, of "''cyan''" 0 "''ts''" _ "1/2"
        "\<lparr>read_color = Inr ''#00ffff'', read_level = Inr (2/5), read_flow = Inr 3,
          read_valve = Inr (1/4)\<rparr>" "[]"]
    by (simp add: poll_round_def)
qed

text \<open>
  C9, as stated, fails: a round whose reads all succeed reads colour first, then level,
  flow and valve, not level, flow, valve and colour.
\<close>

theorem reads_start_with_color:
  "filter is_read (poll_round \<lparr>read_color = Inr ''#00ffff'', read_level = Inr (1/2),
                                read_flow = Inr 3, read_valve = Inr (1/4)\<rparr>)
     = [Read COLOR, Read LEVEL, Read FLOW, Read VALVE]
   \<and> filter is_read (poll_round \<lparr>read_color = Inr ''#00ffff'', read_level = Inr (1/2),
                                read_flow = Inr 3, read_valve = Inr (1/4)\<rparr>)
     \<noteq> [Read LEVEL, Read FLOW, Read VALVE, Read COLOR]"
  by (simp add: poll_round_def)

text \<open>
  C9, amended. In every polling round the attributes are read one after the other in
  the order colour, level, flow, valve ratio, and the round stops reading at the first
  read that fails.
\<close>

theorem read_order_color_level_flow_valve:
  "filter is_read (poll_round r)
     = map Read (if isl (read_color r) then [COLOR]
                 else if isl (read_level r) then [COLOR, LEVEL]
                 else if isl (read_flow r) then [COLOR, LEVEL, FLOW]
                 else [COLOR, LEVEL, FLOW, VALVE])"
  by (auto simp: poll_round_def split: sum.splits)

theorem read_order_color_level_flow_valve_witness:
  "filter is_read (poll_round \<lparr>read_color = Inr ''#00ffff'', read_level = Inl ''timeout'',
                                read_flow = Inr 3, read_valve = Inr (1/4)\<rparr>)
     = [Read COLOR, Read LEVEL]"
  using read_order_color_level_flow_valve
    [of "\<lparr>read_color = Inr ''#00ffff'', read_level = Inl ''timeout'',
                                read_flow = Inr 3, read_valve = Inr (1/4)\<rparr>"]
  by simp

section \<open>Properties of the debounced valve write\<close>

lemma changedValue_frame:
  "slider (changedValue now w) = slider w \<and> tank (changedValue now w) = tank w
   \<and> slider_down (changedValue now w) = slider_down w"
  by (simp add: changedValue_def startTimer_def killTimer_def Let_def split: option.splits)

lemma changedValue_arms:
  assumes "idle w \<or> pending_until w d"
  shows "pending_until (changedValue now w) (now + 200)"
  using assms
  by (auto simp: idle_def pending_until_def changedValue_def startTimer_def killTimer_def Let_def
      split: option.splits)

lemma process_timers_idle:
  assumes "idle w"
  shows "process_timers now w = Inr (w, [])"
  using assms by (simp add: idle_def process_timers_def)

lemma process_timers_early:
  assumes "pending_until w d" "now < d"
  shows "process_timers now w = Inr (w, [])"
  using assms by (auto simp: pending_until_def process_timers_def split: option.splits)

lemma process_timers_fires:
  assumes "pending_until w d" "d \<le> now"
  shows "process_timers now w
           = Inr (w\<lparr>timer_slider := None, active_timers := []\<rparr>, [of_int (slider w) / 100])"
  using assms
  by (auto simp: pending_until_def process_timers_def timerEvent_def reschedule_def killTimer_def
      Let_def split: option.splits)

lemma slider_update_timers:
  "idle (w\<lparr>slider := v\<rparr>) = idle w"
  "pending_until (w\<lparr>slider := v\<rparr>) d = pending_until w d"
  by (simp_all add: idle_def pending_until_def split: option.splits)




text \<open>
  The same with valve values from polls and presses of the slider arriving between the
  requests: they do not touch the running timer, and the one write carries the value
  of the last request.
\<close>

lemma setValve_pending:
  assumes "pending_until w d"
  shows "setValve now v w = w"
  using assms by (auto simp: pending_until_def setValve_def split: option.splits)

lemma slider_down_update_timers:
  "pending_until (w\<lparr>slider_down := b\<rparr>) d = pending_until w d"
  by (simp add: pending_until_def split: option.splits)

lemma events_keep_timer:
  assumes "pending_until w d" "within_settle d es"
  shows "\<exists>w1. run_events es w = Inr (w1, [])
              \<and> pending_until w1 (settle_time d es) \<and> slider w1 = last_request (slider w) es"
  using assms
proof (induction es arbitrary: w d)
  case Nil
  then show ?case by simp
next
  case (Cons e es)
  obtain t inp where e: "e = (t, inp)" by (cases e)
  have early: "t < d" using Cons.prems(2) by (simp add: e)
  have p: "process_timers t w = Inr (w, [])"
    using Cons.prems(1) early by (rule process_timers_early)
  show ?case
  proof (cases inp)
    case (ValueChanged v)
    let ?w = "changedValue t (w\<lparr>slider := v\<rparr>)"
    have "pending_until (w\<lparr>slider := v\<rparr>) d"
      using Cons.prems(1) by (simp add: slider_update_timers)
    then have a: "pending_until ?w (t + 200)" using changedValue_arms by blast
    have s: "slider ?w = v" by (simp add: changedValue_frame)
    have "within_settle (t + 200) es" using Cons.prems(2) by (simp add: e ValueChanged)
    from Cons.IH [OF a this] s
    obtain w1 where "run_events es ?w = Inr (w1, [])"
      "pending_until w1 (settle_time (t + 200) es)" "slider w1 = last_request v es"
      by auto
    then show ?thesis using p by (simp add: e ValueChanged)
  next
    case (SliderDown b)
    let ?w = "w\<lparr>slider_down := b\<rparr>"
    have a: "pending_until ?w d" using Cons.prems(1) by (simp add: slider_down_update_timers)
    have "within_settle d es" using Cons.prems(2) by (simp add: e SliderDown)
    from Cons.IH [OF a this]
    obtain w1 where "run_events es ?w = Inr (w1, [])"
      "pending_until w1 (settle_time d es)" "slider w1 = last_request (slider w) es"
      by auto
    then show ?thesis using p by (simp add: e SliderDown)
  next
    case (ValveValue x)
    have "within_settle d es" using Cons.prems(2) by (simp add: e ValveValue)
    from Cons.IH [OF Cons.prems(1) this]
    obtain w1 where "run_events es w = Inr (w1, [])"
      "pending_until w1 (settle_time d es)" "slider w1 = last_request (slider w) es"
      by auto
    then show ?thesis using p by (simp add: e ValveValue setValve_pending [OF Cons.prems(1)])
  qed
qed

lemma burst_with_echoes_single_write:
  assumes "idle w" and "within_settle (t + 200) es" and "settle_time (t + 200) es \<le> T"
  shows "\<exists>w2. run_until T ((t, ValueChanged v) # es) w
                 = Inr (w2, [of_int (last_request v es) / 100]) \<and> idle w2"
proof -
  let ?w = "changedValue t (w\<lparr>slider := v\<rparr>)"
  have p: "process_timers t w = Inr (w, [])" using assms(1) by (rule process_timers_idle)
  have "idle (w\<lparr>slider := v\<rparr>)" using assms(1) by (simp add: slider_update_timers)
  then have a: "pending_until ?w (t + 200)" using changedValue_arms by blast
  obtain w1 where w1: "run_events es ?w = Inr (w1, [])"
    "pending_until w1 (settle_time (t + 200) es)" "slider w1 = last_request (slider ?w) es"
    using events_keep_timer [OF a assms(2)] by auto
  have s: "slider w1 = last_request v es" using w1(3) by (simp add: changedValue_frame)
  let ?w2 = "w1\<lparr>timer_slider := None, active_timers := []\<rparr>"
  have f: "process_timers T w1 = Inr (?w2, [of_int (last_request v es) / 100])"
    using process_timers_fires [OF w1(2) assms(3)] s by simp
  have "run_until T ((t, ValueChanged v) # es) w = Inr (?w2, [of_int (last_request v es) / 100])"
    by (simp add: run_until_def p w1(1) f)
  moreover have "idle ?w2" by (simp add: idle_def)
  ultimately show ?thesis by blast
qed

lemma burst_with_echoes_example:
  "map_sum id snd
     (run_until 1000 [(0, ValueChanged 10), (50, ValveValue (1/5)), (120, ValueChanged 55),
                      (130, SliderDown False), (300, ValveValue (1/10))] PaintTankWidget_init)
     = Inr [55 / 100]"
proof -
  have "idle PaintTankWidget_init" by (simp add: idle_def PaintTankWidget_init_def)
  from burst_with_echoes_single_write [OF this, of 0
      "[(50, ValveValue (1/5)), (120, ValueChanged 55), (130, SliderDown False), (300, ValveValue (1/10))]"
      1000 10]
  show ?thesis by auto
qed

text \<open>
  The read-back of a write, arriving when no timer is pending and the slider is
  released, sets the slider to the value it already has, so it causes no further
  request. (This holds for exact arithmetic; the rounding of \<open>valve*100\<close> in floating
  point is not part of the model.)
\<close>

lemma write_echo_no_new_request:
  assumes "timer_slider w = None" "\<not> slider_down w" "0 \<le> slider w" "slider w \<le> 100"
  shows "setValve now (of_int (slider w) / 100) w = w\<lparr>tank := (tank w)\<lparr>valve := of_int (slider w)\<rparr>\<rparr>"
proof -
  have "py_int (real_of_int (slider w) / 100 * 100) = slider w"
    using assms(3) by (simp add: py_int_def)
  then show ?thesis using assms by (simp add: setValve_def slider_setValue_def Let_def)
qed

section \<open>Valve values arriving at the slider\<close>

lemma slider_setValue_frame:
  "slider (slider_setValue now b w) = max 0 (min 100 b) \<and> tank (slider_setValue now b w) = tank w"
  by (simp add: slider_setValue_def Let_def changedValue_frame)

text \<open>
  C8, as stated, fails in its second half: with no timer pending, a valve value that
  arrives while the user holds the slider down is not applied to the display.
\<close>

theorem echo_ignored_while_slider_held:
  "timer_slider (PaintTankWidget_init\<lparr>slider_down := True\<rparr>) = None
   \<and> setValve 1000 (1/2) (PaintTankWidget_init\<lparr>slider_down := True\<rparr>)
       = PaintTankWidget_init\<lparr>slider_down := True\<rparr>
   \<and> slider (PaintTankWidget_init\<lparr>slider_down := True\<rparr>) = 0"
  by (simp add: setValve_def PaintTankWidget_init_def)

text \<open>
  C8, amended. While a debounce timer is pending, a valve value arriving from a poll
  changes nothing in the tank's widget; when no timer is pending and the slider is not
  held down, the value is applied: the slider is set to the truncated percentage
  (bounded to the slider's range) and the valve display to the percentage.
\<close>

theorem echo_blocked_while_timer_pending:
  "(timer_slider w \<noteq> None \<longrightarrow> setValve now v w = w)
   \<and> (timer_slider w = None \<and> \<not> slider_down w \<longrightarrow>
        slider (setValve now v w) = max 0 (min 100 (py_int (v * 100)))
        \<and> valve (tank (setValve now v w)) = v * 100)"
  by (simp add: setValve_def Let_def slider_setValue_frame)

theorem echo_blocked_while_timer_pending_witness:
  "timer_slider (changedValue 0 PaintTankWidget_init) \<noteq> None
   \<and> setValve 100 (1/2) (changedValue 0 PaintTankWidget_init) = changedValue 0 PaintTankWidget_init
   \<and> timer_slider PaintTankWidget_init = None \<and> \<not> slider_down PaintTankWidget_init
   \<and> slider (setValve 100 (1/2) PaintTankWidget_init) = 50
   \<and> valve (tank (setValve 100 (1/2) PaintTankWidget_init)) = 50"
  using echo_blocked_while_timer_pending [of "changedValue 0 PaintTankWidget_init" 100 "1/2"]
    echo_blocked_while_timer_pending [of PaintTankWidget_init 100 "1/2"]
  by (simp add: PaintTankWidget_init_def changedValue_def startTimer_def py_int_def)

text \<open>
  C10. While the user holds the slider down, a valve value from a poll changes nothing
  in the widget, also when no timer is pending; and the slider or the tank display
  changes on such a value only when no timer is pending and the slider is not held.
\<close>

theorem echo_applied_only_when_idle_and_released:
  "(slider_down w \<longrightarrow> setValve now v w = w)
   \<and> (slider (setValve now v w) \<noteq> slider w \<or> tank (setValve now v w) \<noteq> tank w
        \<longrightarrow> timer_slider w = None \<and> \<not> slider_down w)"
  by (simp add: setValve_def)

theorem echo_applied_only_when_idle_and_released_witness:
  "slider_down (PaintTankWidget_init\<lparr>slider_down := True\<rparr>)
   \<and> timer_slider (PaintTankWidget_init\<lparr>slider_down := True\<rparr>) = None
   \<and> setValve 100 (7/10) (PaintTankWidget_init\<lparr>slider_down := True\<rparr>)
       = PaintTankWidget_init\<lparr>slider_down := True\<rparr>
   \<and> slider (setValve 100 (7/10) PaintTankWidget_init) \<noteq> slider PaintTankWidget_init
   \<and> timer_slider PaintTankWidget_init = None \<and> \<not> slider_down PaintTankWidget_init"
  using echo_applied_only_when_idle_and_released [of "PaintTankWidget_init\<lparr>slider_down := True\<rparr>" 100 "7/10"]
    echo_applied_only_when_idle_and_released [of PaintTankWidget_init 100 "7/10"]
  by (simp add: PaintTankWidget_init_def setValve_def slider_setValue_def changedValue_def
      startTimer_def py_int_def)

section \<open>Delivering a successful round\<close>

text \<open>
  The signals of a round in which all four reads succeed, delivered to a station that
  has the tank, overwrite the tank's colour, level and flow; the valve display follows
  when no timer is pending and the slider is not held.
\<close>

lemma write_alarms_ok:
  assumes "labels \<noteq> []"
  shows "\<exists>ls. write_alarms rs labels = Inr ls \<and> ls \<noteq> []"
proof -
  have "take (length labels) (rev (map alarm_record rs) @ labels) \<noteq> []"
    using assms by simp
  then show ?thesis using write_alarms_take [OF assms] by simp
qed

lemma successful_round_overwrites:
  assumes "\<not> round_failed r" "tanks (overview g) tank_name = Some w" "alarm_labels g \<noteq> []"
  shows "\<exists>g' w'. publish tank_name now ts (poll_round r) g = Inr g'
           \<and> tanks (overview g') tank_name = Some w'
           \<and> fill_color (tank w') = projr (read_color r)
           \<and> fill_level (tank w') = projr (read_level r)
           \<and> flow (tank w') = projr (read_flow r)
           \<and> (timer_slider w = None \<and> \<not> slider_down w \<longrightarrow>
                valve (tank w') = projr (read_valve r) * 100)"
proof -
  let ?c = "projr (read_color r)" and ?l = "projr (read_level r)"
  let ?f = "projr (read_flow r)" and ?v = "projr (read_valve r)"
  let ?w1 = "setColor ?c w"
  let ?w2 = "?w1\<lparr>tank := (tank ?w1)\<lparr>fill_level := ?l\<rparr>\<rparr>"
  let ?w3 = "setFlow ?f ?w2"
  let ?w4 = "setValve now ?v ?w3"
  let ?al = "map (\<lambda>a. (ts, a))
               (check_alarm_generation (station_name (overview g)) (fill_level (tank ?w1)) ?l tank_name)"
  obtain ls where ls: "write_alarms ?al (alarm_labels g) = Inr ls"
    using write_alarms_ok [OF assms(3)] by blast
  have "publish tank_name now ts (poll_round r) g
          = Inr (g\<lparr>overview := (overview g)\<lparr>tanks := (tanks (overview g))(tank_name \<mapsto> ?w4)\<rparr>,
                   alarm_labels := ls\<rparr>)"
    unfolding poll_round_ok [OF assms(1)]
    using assms(2) ls by (simp add: setLevel_def)
  moreover have "fill_color (tank ?w4) = ?c \<and> fill_level (tank ?w4) = ?l \<and> flow (tank ?w4) = ?f"
    by (simp add: setValve_def Let_def slider_setValue_frame setFlow_def setColor_def)
  moreover have "timer_slider w = None \<and> \<not> slider_down w \<longrightarrow> valve (tank ?w4) = ?v * 100"
    by (simp add: setValve_def Let_def slider_setValue_frame setFlow_def setColor_def)
  ultimately show ?thesis by simp
qed

end
